theory Spec2Isabelle
  imports Complex_Main "HOL-Library.Sublist"
begin

section \<open>PlaceIntel Pro intelligence service: \<^verbatim>\<open>src/intelligence/app.py\<close>\<close>

text \<open>
  The service enriches one place record with four results: business intelligence, real-time
  context, accessibility intelligence and unified recommendations. Every engine is a class
  without mutable state, so each method is embedded as a HOL function of its arguments.
  What a method reads from outside its arguments is made an explicit argument:
  \<^item> each call of \<^verbatim>\<open>random.uniform\<close> and \<^verbatim>\<open>random.choice\<close> takes the outcome of the
    generator (a unit draw, an index) from a record of draws, one field per call site;
  \<^item> \<^verbatim>\<open>datetime.now().hour\<close> is an \<open>int\<close> argument, \<^verbatim>\<open>time.time()\<close> a \<open>real\<close> one.
  Python's \<^verbatim>\<open>float\<close> is idealised to \<open>real\<close>: the arithmetic of the model is exact.
  Strings are Isabelle strings, read as the UTF-8 bytes of the Python string; containment
  of one string in another is the same on bytes and on code points. \<^verbatim>\<open>str.lower\<close>,
  \<^verbatim>\<open>str.split\<close> and \<^verbatim>\<open>str.title\<close> are modelled on ASCII, where they are exact; Python's
  tables for other scripts are not. The general properties below hold whatever these three
  functions return, and the evaluations use ASCII names and labels.
\<close>

subsection \<open>Python primitives the service calls\<close>

text \<open>\<^verbatim>\<open>str.lower()\<close>, on the ASCII letters; other bytes are left as they are.\<close>

definition lower_char :: "char \<Rightarrow> char" where
  "lower_char c =
     (case map_of (zip ''ABCDEFGHIJKLMNOPQRSTUVWXYZ'' ''abcdefghijklmnopqrstuvwxyz'') c of
        None \<Rightarrow> c
      | Some l \<Rightarrow> l)"

definition lower :: "string \<Rightarrow> string" where
  "lower s = map lower_char s"

text \<open>\<^verbatim>\<open>w in s\<close> on strings: \<open>w\<close> occurs in \<open>s\<close> as a contiguous run.\<close>

definition str_in :: "string \<Rightarrow> string \<Rightarrow> bool" where
  "str_in w s = sublist w s"

text \<open>
  \<^verbatim>\<open>str.split()\<close> without arguments: the maximal runs of non-whitespace characters.
  \<open>split_words cur s\<close> scans \<open>s\<close> with the current word \<open>cur\<close> (reversed).
\<close>

definition is_space :: "char \<Rightarrow> bool" where
  "is_space c =
     (let n = (of_char c :: nat) in (9 \<le> n \<and> n \<le> 13) \<or> (28 \<le> n \<and> n \<le> 32))"

fun split_words :: "string \<Rightarrow> string \<Rightarrow> string list" where
  "split_words cur [] = (if cur = [] then [] else [rev cur])"
| "split_words cur (c # s) =
     (if is_space c then (if cur = [] then split_words [] s else rev cur # split_words [] s)
      else split_words (c # cur) s)"

definition split :: "string \<Rightarrow> string list" where
  "split s = split_words [] s"

text \<open>
  \<^verbatim>\<open>random.uniform(a, b)\<close> is \<^verbatim>\<open>a + (b - a) * random()\<close> with \<^verbatim>\<open>random()\<close> in \<open>[0, 1)\<close>;
  \<^verbatim>\<open>random.choice(seq)\<close> is \<^verbatim>\<open>seq[i]\<close> for a drawn index \<open>i < len(seq)\<close>.
\<close>

definition uniform :: "real \<Rightarrow> real \<Rightarrow> real \<Rightarrow> real" where
  "uniform a b u = a + (b - a) * u"

definition unit_draw :: "real \<Rightarrow> bool" where
  "unit_draw u = (0 \<le> u \<and> u < 1)"

definition choice :: "'a list \<Rightarrow> nat \<Rightarrow> 'a" where
  "choice xs i = xs ! i"

text \<open>
  \<^verbatim>\<open>round(x, n)\<close>: the multiple of \<open>10\<^sup>-\<^sup>n\<close> nearest to \<open>x\<close>, a tie going to the
  even multiple.
\<close>

definition round_half_even :: "real \<Rightarrow> int" where
  "round_half_even x =
     (let f = \<lfloor>x\<rfloor>; d = x - of_int f in
      if d < 1 / 2 then f else if 1 / 2 < d then f + 1 else if even f then f else f + 1)"

definition py_round :: "real \<Rightarrow> nat \<Rightarrow> real" where
  "py_round x n = of_int (round_half_even (x * 10 ^ n)) / 10 ^ n"

text \<open>\<^verbatim>\<open>d.get(key, default)\<close> on a dictionary given as a list of items.\<close>

definition dict_get :: "('k \<times> 'v) list \<Rightarrow> 'k \<Rightarrow> 'v \<Rightarrow> 'v" where
  "dict_get d k dflt = (case map_of d k of None \<Rightarrow> dflt | Some v \<Rightarrow> v)"

subsection \<open>The place record\<close>

text \<open>
  A place is the dictionary \<^verbatim>\<open>{'name': str, 'categories': [{'name': str}, ...]}\<close>; the
  record holds what \<^verbatim>\<open>place_data.get('name', '')\<close> and \<^verbatim>\<open>place_data.get('categories', [])\<close>
  return, and \<open>cat_name\<close> what \<^verbatim>\<open>category.get('name', '')\<close> returns. The key
  \<^verbatim>\<open>location\<close> is read and never used.
\<close>

record category =
  cat_name :: string

record place_data =
  name :: string
  categories :: "category list"

subsection \<open>BusinessIntelligenceEngine\<close>

record category_info =
  info_specialties :: "string list"
  info_ideal_for :: "string list"
  info_atmosphere :: string
  info_price_range :: string

definition category_insights :: "(string \<times> category_info) list" where
  "category_insights =
     [(''coffee'',
         \<lparr>info_specialties = [''artisanal coffee'', ''espresso'', ''latte art''],
          info_ideal_for = [''remote work'', ''meetings'', ''studying''],
          info_atmosphere = ''cozy'', info_price_range = ''moderate''\<rparr>),
      (''restaurant'',
         \<lparr>info_specialties = [''local cuisine'', ''fresh ingredients''],
          info_ideal_for = [''dining'', ''celebrations'', ''dates''],
          info_atmosphere = ''welcoming'', info_price_range = ''varied''\<rparr>),
      (''gym'',
         \<lparr>info_specialties = [''fitness equipment'', ''personal training''],
          info_ideal_for = [''workouts'', ''fitness classes'', ''health''],
          info_atmosphere = ''energetic'', info_price_range = ''membership''\<rparr>),
      (''library'',
         \<lparr>info_specialties = [''study spaces'', ''books'', ''quiet environment''],
          info_ideal_for = [''studying'', ''research'', ''reading''],
          info_atmosphere = ''quiet'', info_price_range = ''free''\<rparr>),
      (''shopping'',
         \<lparr>info_specialties = [''retail'', ''variety'', ''brands''],
          info_ideal_for = [''shopping'', ''browsing'', ''gifts''],
          info_atmosphere = ''busy'', info_price_range = ''varied''\<rparr>)]"

text \<open>The keyword \<^verbatim>\<open>caf\<close> followed by e with an acute accent (U+00E9), as UTF-8 bytes.\<close>

definition cafe :: string where
  "cafe = ''caf'' @ [CHR 0xC3, CHR 0xA9]"

definition get_primary_category :: "category list \<Rightarrow> string" where
  "get_primary_category cats =
     (case cats of
        [] \<Rightarrow> ''general''
      | c # _ \<Rightarrow>
          (let category_name = lower (cat_name c) in
           if str_in ''coffee'' category_name \<or> str_in cafe category_name then ''coffee''
           else if str_in ''restaurant'' category_name \<or> str_in ''food'' category_name
             then ''restaurant''
           else if str_in ''gym'' category_name \<or> str_in ''fitness'' category_name then ''gym''
           else if str_in ''library'' category_name then ''library''
           else if str_in ''shop'' category_name \<or> str_in ''store'' category_name
             then ''shopping''
           else ''general''))"

definition calculate_popularity_score :: "string \<Rightarrow> category list \<Rightarrow> real \<Rightarrow> real" where
  "calculate_popularity_score nm cats u =
     (let score = 5.0;
          score =
            (if list_ex (\<lambda>brand. str_in brand (lower nm)) [''starbucks'', ''mcdonalds'', ''subway'']
             then score + 2.0
             else if length (split nm) > 3 then score + 1.0
             else score);
          score =
            (case cats of
               [] \<Rightarrow> score
             | c # _ \<Rightarrow>
                 (let category_name = lower (cat_name c) in
                  if str_in ''coffee'' category_name then score + 1.5
                  else if str_in ''restaurant'' category_name then score + 1.0
                  else score));
          score = score + uniform (- 1.0) 2.0 u
      in max 1.0 (min 10.0 score))"

definition category_sentiment :: "(string \<times> real) list" where
  "category_sentiment =
     [(''coffee'', 4.0), (''restaurant'', 3.8), (''library'', 4.2), (''gym'', 3.5),
      (''shopping'', 3.6)]"

definition analyze_sentiment :: "string \<Rightarrow> string \<Rightarrow> real \<Rightarrow> real" where
  "analyze_sentiment nm cat u =
     (let sentiment = 3.5;
          positive_words = [''best'', ''premium'', ''artisan'', ''fresh'', ''quality'', ''authentic''];
          negative_words = [''cheap'', ''fast'', ''quick''];
          name_lower = lower nm;
          sentiment =
            fold (\<lambda>word s. if str_in word name_lower then s + 0.5 else s) positive_words sentiment;
          sentiment =
            fold (\<lambda>word s. if str_in word name_lower then s - 0.3 else s) negative_words sentiment;
          base_sentiment = dict_get category_sentiment cat 3.5;
          sentiment = (sentiment + base_sentiment) / 2;
          sentiment = sentiment + uniform (- 0.5) 0.5 u
      in max 1.0 (min 5.0 sentiment))"

definition trending_categories :: "(string \<times> real) list" where
  "trending_categories =
     [(''coffee'', 8.5), (''gym'', 7.8), (''restaurant'', 7.0), (''library'', 6.0),
      (''shopping'', 6.5)]"

definition calculate_trending_score :: "string \<Rightarrow> int \<Rightarrow> real" where
  "calculate_trending_score cat hour =
     (let base_score = dict_get trending_categories cat 5.0;
          base_score =
            (if 7 \<le> hour \<and> hour \<le> 9 \<and> cat = ''coffee'' then base_score + 1.0
             else if 12 \<le> hour \<and> hour \<le> 14 \<and> cat = ''restaurant'' then base_score + 1.0
             else if 18 \<le> hour \<and> hour \<le> 20 \<and> cat = ''restaurant'' then base_score + 1.0
             else base_score)
      in max 0.0 (min 10.0 base_score))"

text \<open>
  What \<^verbatim>\<open>analyze_place\<close> reads from outside: two draws, the hour, and the clock at its
  start and end.
\<close>

record business_env =
  popularity_draw :: real
  sentiment_draw :: real
  business_hour :: int
  business_start :: real
  business_end :: real

record business_intel =
  popularity_score :: real
  sentiment_score :: real
  specialties :: "string list"
  ideal_for :: "string list"
  price_range :: string
  atmosphere :: string
  trending_score :: real
  business_time_ms :: real

definition analyze_place :: "place_data \<Rightarrow> business_env \<Rightarrow> business_intel" where
  "analyze_place place e =
     (let primary_category = get_primary_category (categories place);
          popularity = calculate_popularity_score (name place) (categories place) (popularity_draw e);
          sentiment = analyze_sentiment (name place) primary_category (sentiment_draw e);
          category_info = map_of category_insights primary_category;
          trending = calculate_trending_score primary_category (business_hour e);
          processing_time = (business_end e - business_start e) * 1000
      in \<lparr>popularity_score = py_round popularity 1,
          sentiment_score = py_round sentiment 1,
          specialties = (case category_info of None \<Rightarrow> [] | Some i \<Rightarrow> info_specialties i),
          ideal_for = (case category_info of None \<Rightarrow> [] | Some i \<Rightarrow> info_ideal_for i),
          price_range = (case category_info of None \<Rightarrow> ''unknown'' | Some i \<Rightarrow> info_price_range i),
          atmosphere = (case category_info of None \<Rightarrow> ''unknown'' | Some i \<Rightarrow> info_atmosphere i),
          trending_score = py_round trending 1,
          business_time_ms = py_round processing_time 2\<rparr>)"

subsection \<open>RealTimeContextEngine\<close>

text \<open>
  This engine keeps the raw label: its \<^verbatim>\<open>_get_primary_category\<close> returns the lower-cased
  name of the first category, and every method tests that label by containment.
\<close>

definition realtime_get_primary_category :: "category list \<Rightarrow> string" where
  "realtime_get_primary_category cats =
     (case cats of [] \<Rightarrow> ''general'' | c # _ \<Rightarrow> lower (cat_name c))"

definition determine_status :: "string \<Rightarrow> int \<Rightarrow> string" where
  "determine_status cat hour =
     (if str_in ''restaurant'' cat then (if 6 \<le> hour \<and> hour \<le> 23 then ''open'' else ''closed'')
      else if str_in ''coffee'' cat then (if 6 \<le> hour \<and> hour \<le> 20 then ''open'' else ''closed'')
      else if str_in ''gym'' cat then (if 5 \<le> hour \<and> hour \<le> 23 then ''open'' else ''closed'')
      else if str_in ''library'' cat then (if 8 \<le> hour \<and> hour \<le> 20 then ''open'' else ''closed'')
      else (if 9 \<le> hour \<and> hour \<le> 21 then ''open'' else ''closed''))"

definition estimate_crowd_level :: "string \<Rightarrow> int \<Rightarrow> nat \<Rightarrow> string" where
  "estimate_crowd_level cat hour i =
     (if str_in ''restaurant'' cat then
        (if hour \<in> set [12, 13, 18, 19, 20] then ''busy''
         else if hour \<in> set [11, 14, 17, 21] then ''moderate''
         else ''quiet'')
      else if str_in ''coffee'' cat then
        (if hour \<in> set [7, 8, 9, 14, 15] then ''busy''
         else if hour \<in> set [10, 11, 16, 17] then ''moderate''
         else ''quiet'')
      else if str_in ''gym'' cat then
        (if hour \<in> set [6, 7, 17, 18, 19] then ''busy''
         else if hour \<in> set [8, 9, 16, 20] then ''moderate''
         else ''quiet'')
      else choice [''quiet'', ''moderate'', ''busy''] i)"

definition suggest_best_times :: "string \<Rightarrow> string list" where
  "suggest_best_times cat =
     (if str_in ''restaurant'' cat then [''11:30-12:00'', ''14:30-17:00'', ''21:00-22:00'']
      else if str_in ''coffee'' cat then [''10:00-11:30'', ''15:30-17:00'']
      else if str_in ''gym'' cat then [''10:00-16:00'', ''21:00-23:00'']
      else if str_in ''library'' cat then [''9:00-11:00'', ''14:00-16:00'']
      else [''10:00-12:00'', ''14:00-16:00''])"

definition detect_events :: "string \<Rightarrow> int \<Rightarrow> string list" where
  "detect_events cat hour =
     (if str_in ''library'' cat \<and> 14 \<le> hour \<and> hour \<le> 16 then [''study group session'']
      else if str_in ''gym'' cat \<and> hour \<in> set [18, 19] then [''fitness class'']
      else if str_in ''coffee'' cat \<and> hour \<in> set [15, 16] then [''afternoon networking'']
      else [])"

definition estimate_wait_time :: "string \<Rightarrow> string" where
  "estimate_wait_time crowd =
     (if crowd = ''busy'' then ''10-15 minutes''
      else if crowd = ''moderate'' then ''5-10 minutes''
      else ''no wait'')"

definition assess_weather_impact :: "string \<Rightarrow> nat \<Rightarrow> string" where
  "assess_weather_impact cat i =
     (let weather_conditions = [''sunny'', ''rainy'', ''cloudy''];
          current_weather = choice weather_conditions i
      in if current_weather = ''rainy'' \<and> str_in ''outdoor'' cat
           then ''high impact - indoor alternatives recommended''
         else if current_weather = ''sunny'' \<and> str_in ''park'' cat
           then ''positive impact - great weather for outdoor activities''
         else ''minimal impact'')"

text \<open>
  What \<^verbatim>\<open>analyze_context\<close> reads from outside: the hour, the two \<^verbatim>\<open>random.choice\<close>
  indices, the unit draw of its confidence, the clock, and the text of
  \<^verbatim>\<open>datetime.utcnow().isoformat()\<close>.
\<close>

record context_env =
  context_hour :: int
  crowd_draw :: nat
  weather_draw :: nat
  confidence_draw :: real
  utcnow_isoformat :: string
  context_start :: real
  context_end :: real

record realtime_context =
  current_status :: string
  crowd_level :: string
  best_visit_times :: "string list"
  live_events :: "string list"
  estimated_wait_time :: string
  weather_impact :: string
  last_updated :: string
  context_confidence_score :: real
  context_time_ms :: real

definition analyze_context :: "place_data \<Rightarrow> context_env \<Rightarrow> realtime_context" where
  "analyze_context place e =
     (let primary_category = realtime_get_primary_category (categories place);
          current_hour = context_hour e;
          status = determine_status primary_category current_hour;
          crowd = estimate_crowd_level primary_category current_hour (crowd_draw e);
          best_times = suggest_best_times primary_category;
          events = detect_events primary_category current_hour;
          wait_time = estimate_wait_time crowd;
          weather = assess_weather_impact primary_category (weather_draw e);
          processing_time = (context_end e - context_start e) * 1000
      in \<lparr>current_status = status,
          crowd_level = crowd,
          best_visit_times = best_times,
          live_events = events,
          estimated_wait_time = wait_time,
          weather_impact = weather,
          last_updated = utcnow_isoformat e @ ''Z'',
          context_confidence_score = py_round (uniform 0.7 0.95 (confidence_draw e)) 2,
          context_time_ms = py_round processing_time 2\<rparr>)"

subsection \<open>AccessibilityIntelligenceEngine\<close>

definition calculate_accessibility_score :: "category list \<Rightarrow> string \<Rightarrow> real \<Rightarrow> real" where
  "calculate_accessibility_score cats nm u =
     (let base_score = 5.0 in
      case cats of
        [] \<Rightarrow> base_score
      | c # _ \<Rightarrow>
          (let category_name = lower (cat_name c);
               base_score =
                 (if list_ex (\<lambda>word. str_in word (lower nm)) [''new'', ''modern'', ''center'', ''mall'']
                  then base_score + 2.0 else base_score);
               base_score =
                 (if str_in ''library'' category_name \<or> str_in ''hospital'' category_name
                    then base_score + 3.0
                  else if str_in ''restaurant'' category_name \<and> str_in ''chain'' (lower nm)
                    then base_score + 2.0
                  else if str_in ''gym'' category_name then base_score + 1.5
                  else base_score);
               base_score = base_score + uniform (- 1.0) 1.0 u
           in max 0.0 (min 10.0 base_score)))"

record features =
  ramp_access :: bool
  elevator :: bool
  accessible_restrooms :: bool
  braille_signage :: bool
  hearing_loop :: bool
  wide_entrances :: bool
  accessible_parking :: bool

text \<open>
  The indices of the \<^verbatim>\<open>random.choice([True, False])\<close> calls, one per feature key: a branch
  of \<^verbatim>\<open>_analyze_accessibility_features\<close> draws for some of the keys and none twice.
\<close>

record feature_draws =
  ramp_draw :: nat
  elevator_draw :: nat
  restrooms_draw :: nat
  entrances_draw :: nat
  parking_draw :: nat

definition default_features :: "feature_draws \<Rightarrow> features" where
  "default_features d =
     \<lparr>ramp_access = choice [True, False] (ramp_draw d),
      elevator = choice [True, False] (elevator_draw d),
      accessible_restrooms = choice [True, False] (restrooms_draw d),
      braille_signage = False,
      hearing_loop = False,
      wide_entrances = choice [True, False] (entrances_draw d),
      accessible_parking = choice [True, False] (parking_draw d)\<rparr>"

definition analyze_accessibility_features :: "category list \<Rightarrow> feature_draws \<Rightarrow> features" where
  "analyze_accessibility_features cats d =
     (case cats of
        [] \<Rightarrow> default_features d
      | c # _ \<Rightarrow>
          (let category_name = lower (cat_name c) in
           if str_in ''library'' category_name then
             \<lparr>ramp_access = True, elevator = True, accessible_restrooms = True,
              braille_signage = True, hearing_loop = True, wide_entrances = True,
              accessible_parking = True\<rparr>
           else if str_in ''restaurant'' category_name then
             \<lparr>ramp_access = choice [True, False] (ramp_draw d),
              elevator = False,
              accessible_restrooms = choice [True, False] (restrooms_draw d),
              braille_signage = False,
              hearing_loop = False,
              wide_entrances = choice [True, False] (entrances_draw d),
              accessible_parking = choice [True, False] (parking_draw d)\<rparr>
           else if str_in ''gym'' category_name then
             \<lparr>ramp_access = True,
              elevator = choice [True, False] (elevator_draw d),
              accessible_restrooms = True,
              braille_signage = False,
              hearing_loop = False,
              wide_entrances = True,
              accessible_parking = True\<rparr>
           else default_features d))"

record recommendations =
  mobility_friendly_areas :: "string list"
  sensory_accommodations :: "string list"
  cognitive_support :: "string list"

definition generate_inclusive_recommendations :: "category list \<Rightarrow> features \<Rightarrow> recommendations" where
  "generate_inclusive_recommendations cats f =
     (case cats of
        [] \<Rightarrow> \<lparr>mobility_friendly_areas = [], sensory_accommodations = [], cognitive_support = []\<rparr>
      | c # _ \<Rightarrow>
          (let category_name = lower (cat_name c) in
           \<lparr>mobility_friendly_areas =
              (if ramp_access f then [''main entrance accessible''] else []) @
              (if elevator f then [''all floors accessible''] else []) @
              (if accessible_restrooms f then [''accessible restroom facilities''] else []),
            sensory_accommodations =
              (if str_in ''library'' category_name
               then [''quiet study areas available'', ''adjustable lighting in reading areas'']
               else []) @
              (if hearing_loop f then [''hearing loop system available''] else []),
            cognitive_support =
              (if str_in ''library'' category_name
                 then [''clear signage and wayfinding'', ''staff available for assistance'']
               else if str_in ''restaurant'' category_name then [''picture menus available'']
               else [])\<rparr>))"

record access_env =
  accessibility_draw :: real
  feature_env :: feature_draws
  access_start :: real
  access_end :: real

record accessibility_intel =
  wheelchair_accessible :: bool
  accessibility_score :: real
  access_features :: features
  inclusive_recommendations :: recommendations
  access_time_ms :: real

definition analyze_accessibility :: "place_data \<Rightarrow> access_env \<Rightarrow> accessibility_intel" where
  "analyze_accessibility place e =
     (let score = calculate_accessibility_score (categories place) (name place) (accessibility_draw e);
          feats = analyze_accessibility_features (categories place) (feature_env e);
          recs = generate_inclusive_recommendations (categories place) feats;
          processing_time = (access_end e - access_start e) * 1000
      in \<lparr>wheelchair_accessible = (7.0 \<le> score),
          accessibility_score = py_round score 1,
          access_features = feats,
          inclusive_recommendations = recs,
          access_time_ms = py_round processing_time 2\<rparr>)"

subsection \<open>UnifiedRecommendationEngine\<close>

text \<open>
  The engine reads the three results with \<^verbatim>\<open>d.get(key, default)\<close>; the results of the
  analyzers hold every key, so \<open>get\<close> is the field. \<^verbatim>\<open>str.title()\<close> on ASCII letters: a
  letter after a letter is lower-cased, any other letter upper-cased.
\<close>

definition upper_char :: "char \<Rightarrow> char" where
  "upper_char c =
     (case map_of (zip ''abcdefghijklmnopqrstuvwxyz'' ''ABCDEFGHIJKLMNOPQRSTUVWXYZ'') c of
        None \<Rightarrow> c
      | Some u \<Rightarrow> u)"

definition is_cased :: "char \<Rightarrow> bool" where
  "is_cased c = (c \<in> set ''abcdefghijklmnopqrstuvwxyzABCDEFGHIJKLMNOPQRSTUVWXYZ'')"

fun title_from :: "bool \<Rightarrow> string \<Rightarrow> string" where
  "title_from previous_is_cased [] = []"
| "title_from previous_is_cased (c # s) =
     (if is_cased c
      then (if previous_is_cased then lower_char c else upper_char c) # title_from True s
      else c # title_from False s)"

definition title :: "string \<Rightarrow> string" where
  "title s = title_from False s"

text \<open>\<^verbatim>\<open>sep.join(xs)\<close>.\<close>

fun join :: "string \<Rightarrow> string list \<Rightarrow> string" where
  "join sep [] = []"
| "join sep [x] = x"
| "join sep (x # y # ys) = x @ sep @ join sep (y # ys)"

text \<open>The local list \<^verbatim>\<open>scores\<close> of \<^verbatim>\<open>_calculate_confidence_score\<close>, then the method.\<close>

definition confidence_scores ::
  "business_intel \<Rightarrow> realtime_context \<Rightarrow> accessibility_intel \<Rightarrow> real list" where
  "confidence_scores b c a =
     (if 0 < popularity_score b then [0.8] else []) @
     (if 0 < context_confidence_score c then [context_confidence_score c] else []) @
     (if 0 < accessibility_score a then [0.7] else [])"

definition calculate_confidence_score ::
  "business_intel \<Rightarrow> realtime_context \<Rightarrow> accessibility_intel \<Rightarrow> real" where
  "calculate_confidence_score b c a =
     (let scores = confidence_scores b c a in
      if scores \<noteq> [] then sum_list scores / real (length scores) else 0.5)"

text \<open>
  \<open>insight_candidates\<close> is the list \<^verbatim>\<open>insights\<close> that \<^verbatim>\<open>_generate_personalized_insights\<close>
  has built when it reaches its \<^verbatim>\<open>return insights[:4]\<close>. \<open>fmt\<close> is the text Python prints
  for a float inside an f-string.
\<close>

definition insight_candidates ::
  "(real \<Rightarrow> string) \<Rightarrow> place_data \<Rightarrow> business_intel \<Rightarrow> realtime_context \<Rightarrow> accessibility_intel
     \<Rightarrow> string list" where
  "insight_candidates fmt place b c a =
     (let insights = [];
          popularity = popularity_score b;
          insights =
            (if 8.0 \<le> popularity
               then insights @ [''Highly popular destination with '' @ fmt popularity @ ''/10 rating'']
             else if 6.0 \<le> popularity
               then insights @ [''Well-regarded place with '' @ fmt popularity @ ''/10 popularity'']
             else insights);
          crowd = crowd_level c;
          insights =
            (if crowd = ''quiet''
               then insights @ [''Currently quiet - perfect for a peaceful visit'']
             else if crowd = ''busy''
               then insights @
                 [''Currently busy - consider visiting during suggested off-peak times'']
             else insights);
          insights =
            (if wheelchair_accessible a
               then insights @ [''Fully wheelchair accessible with comprehensive features'']
             else insights);
          insights =
            (if atmosphere b \<noteq> [] \<and> ideal_for b \<noteq> []
               then insights @
                 [title (atmosphere b) @ '' atmosphere, ideal for '' @ join '', '' (ideal_for b)]
             else insights)
      in insights)"

definition generate_personalized_insights ::
  "(real \<Rightarrow> string) \<Rightarrow> place_data \<Rightarrow> business_intel \<Rightarrow> realtime_context \<Rightarrow> accessibility_intel
     \<Rightarrow> string list" where
  "generate_personalized_insights fmt place b c a = take 4 (insight_candidates fmt place b c a)"

text \<open>Likewise \<^verbatim>\<open>alternatives\<close> before \<^verbatim>\<open>return alternatives[:3]\<close>.\<close>

definition alternative_candidates :: "place_data \<Rightarrow> business_intel \<Rightarrow> string list" where
  "alternative_candidates place b =
     (case categories place of
        [] \<Rightarrow> []
      | c # _ \<Rightarrow>
          (let category_name = lower (cat_name c) in
           if str_in ''coffee'' category_name then
             [''Local independent coffee shops nearby'',
              ''Tea houses for alternative beverages'',
              ''Co-working spaces with '' @ cafe @ '' facilities'']
           else if str_in ''restaurant'' category_name then
             [''Similar cuisine restaurants in the area'',
              ''Food trucks for casual dining'',
              ''Delivery options if crowded'']
           else if str_in ''gym'' category_name then
             [''Outdoor fitness areas nearby'',
              ''Alternative fitness studios'',
              ''Home workout options during peak hours'']
           else []))"

definition suggest_alternatives :: "place_data \<Rightarrow> business_intel \<Rightarrow> string list" where
  "suggest_alternatives place b =
     (case categories place of [] \<Rightarrow> [] | _ # _ \<Rightarrow> take 3 (alternative_candidates place b))"

definition create_visit_strategy :: "realtime_context \<Rightarrow> accessibility_intel \<Rightarrow> string" where
  "create_visit_strategy c a =
     (let best_times = best_visit_times c;
          crowd = crowd_level c;
          wait_time = estimated_wait_time c;
          strategy_parts =
            (if best_times \<noteq> [] then [''Best visit times: '' @ join '', '' best_times] else []) @
            (if crowd = ''busy'' \<and> wait_time \<noteq> ''no wait''
             then [''Current wait time: '' @ wait_time] else []) @
            (if wheelchair_accessible a then [''Accessible entrance available''] else [])
      in if strategy_parts \<noteq> [] then join ''. '' strategy_parts
         else ''Visit anytime based on your preference'')"

text \<open>\<^verbatim>\<open>notes\<close> before \<^verbatim>\<open>return notes[:3]\<close>.\<close>

definition note_candidates :: "accessibility_intel \<Rightarrow> string list" where
  "note_candidates a =
     (let notes = [];
          notes =
            (if wheelchair_accessible a
               then notes @ [''Wheelchair accessible with ramp access'']
             else notes @ [''Accessibility features may be limited - recommend calling ahead'']);
          feats = access_features a;
          notes =
            (if accessible_restrooms feats
               then notes @ [''Accessible restroom facilities available'']
             else notes);
          notes =
            (if hearing_loop feats
               then notes @ [''Hearing loop system available for hearing aid users'']
             else notes)
      in notes)"

definition create_accessibility_notes :: "accessibility_intel \<Rightarrow> string list" where
  "create_accessibility_notes a = take 3 (note_candidates a)"

record unified_env =
  float_str :: "real \<Rightarrow> string"
  unified_start :: real
  unified_end :: real

record unified_recommendations =
  confidence_score :: real
  personalized_insights :: "string list"
  alternative_suggestions :: "string list"
  optimal_visit_strategy :: string
  accessibility_notes :: "string list"
  unified_time_ms :: real

definition generate_recommendations ::
  "place_data \<Rightarrow> business_intel \<Rightarrow> realtime_context \<Rightarrow> accessibility_intel \<Rightarrow> unified_env
     \<Rightarrow> unified_recommendations" where
  "generate_recommendations place b c a e =
     (let confidence = calculate_confidence_score b c a;
          insights = generate_personalized_insights (float_str e) place b c a;
          alternatives = suggest_alternatives place b;
          strategy = create_visit_strategy c a;
          notes = create_accessibility_notes a;
          processing_time = (unified_end e - unified_start e) * 1000
      in \<lparr>confidence_score = py_round confidence 2,
          personalized_insights = insights,
          alternative_suggestions = alternatives,
          optimal_visit_strategy = strategy,
          accessibility_notes = notes,
          unified_time_ms = py_round processing_time 2\<rparr>)"

subsection \<open>The endpoint \<^verbatim>\<open>POST /api/v1/intelligence/enhance\<close>\<close>

text \<open>
  The handler calls \<^verbatim>\<open>request.get_json()\<close> inside its \<^verbatim>\<open>try\<close>. The call belongs to
  Flask: it returns the parsed JSON value of the body (\<open>JNull\<close> is the JSON value
  \<^verbatim>\<open>null\<close>, Python's \<^verbatim>\<open>None\<close>; a dictionary is the list of its items), or it raises, as
  it does for a request that carries no JSON body. The outcome of the call, an exception
  or a value, is the handler's input. The handler and the engines test and read the value
  as Python does: \<^verbatim>\<open>not v\<close> is truthiness, and a method called on a value whose type lacks
  it raises inside the \<^verbatim>\<open>try\<close>.
\<close>

datatype json =
    JNull
  | JBool bool
  | JInt int
  | JFloat real
  | JStr string
  | JArr "json list"
  | JObj "(string \<times> json) list"

fun truthy :: "json \<Rightarrow> bool" where
  "truthy JNull = False"
| "truthy (JBool b) = b"
| "truthy (JInt n) = (n \<noteq> 0)"
| "truthy (JFloat x) = (x \<noteq> 0)"
| "truthy (JStr s) = (s \<noteq> [])"
| "truthy (JArr xs) = (xs \<noteq> [])"
| "truthy (JObj d) = (d \<noteq> [])"

fun py_type :: "json \<Rightarrow> string" where
  "py_type JNull = ''NoneType''"
| "py_type (JBool b) = ''bool''"
| "py_type (JInt n) = ''int''"
| "py_type (JFloat x) = ''float''"
| "py_type (JStr s) = ''str''"
| "py_type (JArr xs) = ''list''"
| "py_type (JObj d) = ''dict''"

text \<open>
  The exceptions the handler can meet: an attribute missing on a type, a value that cannot
  be indexed, a key missing in a dictionary, and the HTTP exception \<^verbatim>\<open>get_json()\<close> raises,
  given by its text; and \<^verbatim>\<open>str(e)\<close>.
\<close>

datatype py_exception =
    AttributeError string string
  | TypeError string
  | KeyError string
  | HTTPException string

fun str_exception :: "py_exception \<Rightarrow> string" where
  "str_exception (AttributeError ty attr) =
     [CHR 0x27] @ ty @ [CHR 0x27] @ '' object has no attribute '' @ [CHR 0x27] @ attr @ [CHR 0x27]"
| "str_exception (TypeError ty) = [CHR 0x27] @ ty @ [CHR 0x27] @ '' object is not subscriptable''"
| "str_exception (KeyError k) = k"
| "str_exception (HTTPException text) = text"

text \<open>
  What the engines read from the place dictionary, in the order they read it.
  \<^verbatim>\<open>_get_primary_category(categories)\<close> comes first: a falsy value counts as no category;
  otherwise \<^verbatim>\<open>categories[0].get('name', '').lower()\<close> needs a list (or a string) to index, a
  dictionary as first element and a string as its name. The engines read no other element,
  so the record keeps the first alone. Then \<^verbatim>\<open>name.lower()\<close> needs the name to be a
  string.
\<close>

fun read_categories :: "json \<Rightarrow> py_exception + category list" where
  "read_categories (JArr (JObj d # _)) =
     (case dict_get d ''name'' (JStr []) of
        JStr s \<Rightarrow> Inr [\<lparr>cat_name = s\<rparr>]
      | w \<Rightarrow> Inl (AttributeError (py_type w) ''lower''))"
| "read_categories (JArr (x # _)) = Inl (AttributeError (py_type x) ''get'')"
| "read_categories (JStr (c # _)) = Inl (AttributeError ''str'' ''get'')"
| "read_categories (JObj (kv # _)) = Inl (KeyError ''0'')"
| "read_categories v = (if truthy v then Inl (TypeError (py_type v)) else Inr [])"

definition read_name :: "json \<Rightarrow> py_exception + string" where
  "read_name v = (case v of JStr s \<Rightarrow> Inr s | w \<Rightarrow> Inl (AttributeError (py_type w) ''lower''))"

definition read_place :: "(string \<times> json) list \<Rightarrow> py_exception + place_data" where
  "read_place d =
     (case read_categories (dict_get d ''categories'' (JArr [])) of
        Inl e \<Rightarrow> Inl e
      | Inr cats \<Rightarrow>
          (case read_name (dict_get d ''name'' (JStr [])) of
             Inl e \<Rightarrow> Inl e
           | Inr nm \<Rightarrow> Inr \<lparr>name = nm, categories = cats\<rparr>))"

text \<open>\<^verbatim>\<open>jsonify\<close> of the four results.\<close>

definition json_strings :: "string list \<Rightarrow> json" where
  "json_strings xs = JArr (map JStr xs)"

definition business_json :: "business_intel \<Rightarrow> json" where
  "business_json b =
     JObj [(''popularity_score'', JFloat (popularity_score b)),
           (''sentiment_score'', JFloat (sentiment_score b)),
           (''specialties'', json_strings (specialties b)),
           (''ideal_for'', json_strings (ideal_for b)),
           (''price_range'', JStr (price_range b)),
           (''atmosphere'', JStr (atmosphere b)),
           (''trending_score'', JFloat (trending_score b)),
           (''processing_time_ms'', JFloat (business_time_ms b))]"

definition context_json :: "realtime_context \<Rightarrow> json" where
  "context_json c =
     JObj [(''current_status'', JStr (current_status c)),
           (''crowd_level'', JStr (crowd_level c)),
           (''best_visit_times'', json_strings (best_visit_times c)),
           (''live_events'', json_strings (live_events c)),
           (''estimated_wait_time'', JStr (estimated_wait_time c)),
           (''weather_impact'', JStr (weather_impact c)),
           (''last_updated'', JStr (last_updated c)),
           (''confidence_score'', JFloat (context_confidence_score c)),
           (''processing_time_ms'', JFloat (context_time_ms c))]"

definition features_json :: "features \<Rightarrow> json" where
  "features_json f =
     JObj [(''ramp_access'', JBool (ramp_access f)),
           (''elevator'', JBool (elevator f)),
           (''accessible_restrooms'', JBool (accessible_restrooms f)),
           (''braille_signage'', JBool (braille_signage f)),
           (''hearing_loop'', JBool (hearing_loop f)),
           (''wide_entrances'', JBool (wide_entrances f)),
           (''accessible_parking'', JBool (accessible_parking f))]"

definition recommendations_json :: "recommendations \<Rightarrow> json" where
  "recommendations_json r =
     JObj [(''mobility_friendly_areas'', json_strings (mobility_friendly_areas r)),
           (''sensory_accommodations'', json_strings (sensory_accommodations r)),
           (''cognitive_support'', json_strings (cognitive_support r))]"

definition accessibility_json :: "accessibility_intel \<Rightarrow> json" where
  "accessibility_json a =
     JObj [(''wheelchair_accessible'', JBool (wheelchair_accessible a)),
           (''accessibility_score'', JFloat (accessibility_score a)),
           (''features'', features_json (access_features a)),
           (''inclusive_recommendations'', recommendations_json (inclusive_recommendations a)),
           (''processing_time_ms'', JFloat (access_time_ms a))]"

definition unified_json :: "unified_recommendations \<Rightarrow> json" where
  "unified_json u =
     JObj [(''confidence_score'', JFloat (confidence_score u)),
           (''personalized_insights'', json_strings (personalized_insights u)),
           (''alternative_suggestions'', json_strings (alternative_suggestions u)),
           (''optimal_visit_strategy'', JStr (optimal_visit_strategy u)),
           (''accessibility_notes'', json_strings (accessibility_notes u)),
           (''processing_time_ms'', JFloat (unified_time_ms u))]"

text \<open>What one request reads from outside: the environments of the four engines and the clock.\<close>

record request_env =
  business_part :: business_env
  context_part :: context_env
  access_part :: access_env
  unified_part :: unified_env
  request_start :: real
  request_end :: real

text \<open>
  The four results of one request, as the handler computes them one after the other, and
  the dictionary \<^verbatim>\<open>response\<close> it builds from them.
\<close>

record intelligence =
  business_intelligence :: business_intel
  real_time_context :: realtime_context
  accessibility_intelligence :: accessibility_intel
  unified :: unified_recommendations

definition run_engines :: "place_data \<Rightarrow> request_env \<Rightarrow> intelligence" where
  "run_engines place e =
     (let business = analyze_place place (business_part e);
          realtime = analyze_context place (context_part e);
          accessibility = analyze_accessibility place (access_part e);
          recs = generate_recommendations place business realtime accessibility (unified_part e)
      in \<lparr>business_intelligence = business,
          real_time_context = realtime,
          accessibility_intelligence = accessibility,
          unified = recs\<rparr>)"

definition response_json :: "intelligence \<Rightarrow> request_env \<Rightarrow> json" where
  "response_json r e =
     (let total_processing_time = (request_end e - request_start e) * 1000 in
      JObj [(''business_intelligence'', business_json (business_intelligence r)),
            (''real_time_context'', context_json (real_time_context r)),
            (''accessibility_intelligence'', accessibility_json (accessibility_intelligence r)),
            (''unified_recommendations'', unified_json (unified r)),
            (''processing_time_ms'', JFloat (py_round total_processing_time 2)),
            (''data_sources'',
               json_strings [''foursquare'', ''ml_models'', ''accessibility_db'', ''real_time_feeds''])])"

record response =
  status :: nat
  body :: json

text \<open>
  The body of the handler's \<^verbatim>\<open>try\<close>: a response, or the exception that leaves it. Its
  first statement is \<^verbatim>\<open>data = request.get_json()\<close>, whose outcome is \<open>got\<close>: an exception
  raised there leaves the \<^verbatim>\<open>try\<close> before any guard is reached. \<^verbatim>\<open>data.get\<close> and
  \<^verbatim>\<open>place_data.get\<close> need dictionaries.
\<close>

definition try_enhance :: "py_exception + json \<Rightarrow> request_env \<Rightarrow> py_exception + response" where
  "try_enhance got e =
     (case got of
        Inl ex \<Rightarrow> Inl ex
      | Inr data \<Rightarrow>
          (if \<not> truthy data
           then Inr \<lparr>status = 400, body = JObj [(''error'', JStr ''No data provided'')]\<rparr>
           else case data of
             JObj d \<Rightarrow>
               (let place_data = dict_get d ''place'' (JObj []) in
                if \<not> truthy place_data
                then Inr \<lparr>status = 400,
                          body = JObj [(''error'', JStr ''No place data provided'')]\<rparr>
                else case place_data of
                  JObj p \<Rightarrow>
                    (case read_place p of
                       Inl ex \<Rightarrow> Inl ex
                     | Inr place \<Rightarrow>
                         Inr \<lparr>status = 200, body = response_json (run_engines place e) e\<rparr>)
                | w \<Rightarrow> Inl (AttributeError (py_type w) ''get''))
           | w \<Rightarrow> Inl (AttributeError (py_type w) ''get'')))"

text \<open>The handler: the \<^verbatim>\<open>except Exception\<close> clause turns an exception into the answer 500.\<close>

definition enhance_place_intelligence :: "py_exception + json \<Rightarrow> request_env \<Rightarrow> response" where
  "enhance_place_intelligence got e =
     (case try_enhance got e of
        Inr r \<Rightarrow> r
      | Inl ex \<Rightarrow>
          \<lparr>status = 500,
           body = JObj [(''error'', JStr ''Internal server error''),
                        (''message'', JStr (str_exception ex))]\<rparr>)"

text \<open>The keys of a JSON object.\<close>

fun json_keys :: "json \<Rightarrow> string list" where
  "json_keys (JObj d) = map fst d"
| "json_keys v = []"

section \<open>The specification's wording of three operations\<close>

text \<open>
  Section 4.1 of the specification words the classifier as a table of keyword sets in a
  precedence order, the first matching set deciding the category.
\<close>

definition keyword_sets :: "(string \<times> string list) list" where
  "keyword_sets =
     [(''coffee'', [''coffee'', cafe]),
      (''restaurant'', [''restaurant'', ''food'']),
      (''gym'', [''gym'', ''fitness'']),
      (''library'', [''library'']),
      (''shopping'', [''shop'', ''store''])]"

definition classify :: "category list \<Rightarrow> string" where
  "classify cats =
     (case cats of
        [] \<Rightarrow> ''general''
      | c # _ \<Rightarrow>
          (case find (\<lambda>(cat, keywords). list_ex (\<lambda>kw. str_in kw (lower (cat_name c))) keywords)
                  keyword_sets of
             None \<Rightarrow> ''general''
           | Some (cat, keywords) \<Rightarrow> cat))"

text \<open>
  Section 4.2 words the trending score with three time bonuses that are evaluated
  independently of each other and added.
\<close>

definition trending_independent :: "string \<Rightarrow> int \<Rightarrow> real" where
  "trending_independent cat hour =
     (let base_score = dict_get trending_categories cat 5.0;
          coffee_bonus = (if cat = ''coffee'' \<and> 7 \<le> hour \<and> hour \<le> 9 then 1.0 else 0);
          lunch_bonus = (if cat = ''restaurant'' \<and> 12 \<le> hour \<and> hour \<le> 14 then 1.0 else 0);
          dinner_bonus = (if cat = ''restaurant'' \<and> 18 \<le> hour \<and> hour \<le> 20 then 1.0 else 0)
      in max 0.0 (min 10.0 (base_score + coffee_bonus + lunch_bonus + dinner_bonus)))"

text \<open>
  Section 6 gives the schema of a request body: a JSON object whose \<^verbatim>\<open>place\<close>, when
  present, is a JSON object with optional \<^verbatim>\<open>name\<close> (a string), \<^verbatim>\<open>categories\<close> (an array of
  objects, each with a \<^verbatim>\<open>name\<close>) and \<^verbatim>\<open>location\<close> (an object).
\<close>

definition schema_category :: "json \<Rightarrow> bool" where
  "schema_category v =
     (case v of
        JObj d \<Rightarrow> (case map_of d ''name'' of Some (JStr s) \<Rightarrow> True | _ \<Rightarrow> False)
      | _ \<Rightarrow> False)"

definition schema_place :: "(string \<times> json) list \<Rightarrow> bool" where
  "schema_place p =
     ((case map_of p ''name'' of None \<Rightarrow> True | Some (JStr s) \<Rightarrow> True | _ \<Rightarrow> False) \<and>
      (case map_of p ''categories'' of
         None \<Rightarrow> True
       | Some (JArr cs) \<Rightarrow> list_all schema_category cs
       | _ \<Rightarrow> False) \<and>
      (case map_of p ''location'' of None \<Rightarrow> True | Some (JObj l) \<Rightarrow> True | _ \<Rightarrow> False))"

definition schema_body :: "json \<Rightarrow> bool" where
  "schema_body data =
     (case data of
        JObj d \<Rightarrow>
          (case map_of d ''place'' of
             None \<Rightarrow> True
           | Some (JObj p) \<Rightarrow> schema_place p
           | _ \<Rightarrow> False)
      | _ \<Rightarrow> False)"

section \<open>The hour tables of \<^verbatim>\<open>_estimate_crowd_level\<close>\<close>

text \<open>
  The branches of \<^verbatim>\<open>_estimate_crowd_level\<close> as a table, in their order: the keyword a
  branch tests, its busy hours, its moderate hours. \<open>crowd_by_hour\<close> is the level the first
  matching row gives, and \<open>None\<close> when no row matches.
\<close>

definition crowd_hours :: "(string \<times> int list \<times> int list) list" where
  "crowd_hours =
     [(''restaurant'', [12, 13, 18, 19, 20], [11, 14, 17, 21]),
      (''coffee'', [7, 8, 9, 14, 15], [10, 11, 16, 17]),
      (''gym'', [6, 7, 17, 18, 19], [8, 9, 16, 20])]"

definition crowd_by_hour :: "string \<Rightarrow> int \<Rightarrow> string option" where
  "crowd_by_hour cat hour =
     (case find (\<lambda>(keyword, busy, moderate). str_in keyword cat) crowd_hours of
        None \<Rightarrow> None
      | Some (keyword, busy, moderate) \<Rightarrow>
          Some (if hour \<in> set busy then ''busy''
                else if hour \<in> set moderate then ''moderate''
                else ''quiet''))"

section \<open>The two guards of the handler\<close>

text \<open>
  \<open>rejected data\<close>: one of the handler's two guards, \<^verbatim>\<open>if not data\<close> and
  \<^verbatim>\<open>if not place_data\<close>, fires on the value \<open>data\<close> that \<^verbatim>\<open>get_json()\<close> returned.
\<close>

fun rejected :: "json \<Rightarrow> bool" where
  "rejected (JObj d) = (\<not> truthy (dict_get d ''place'' (JObj [])))"
| "rejected v = (\<not> truthy v)"

section \<open>Sample inputs\<close>

text \<open>Places and environments on which the properties below are evaluated.\<close>

definition starbucks :: place_data where
  "starbucks = \<lparr>name = ''Starbucks Downtown'', categories = [\<lparr>cat_name = ''Coffee Shop''\<rparr>]\<rparr>"

definition city_library :: place_data where
  "city_library = \<lparr>name = ''City Library'', categories = [\<lparr>cat_name = ''Library''\<rparr>]\<rparr>"

definition food_court :: place_data where
  "food_court = \<lparr>name = ''Harbour Food Court'', categories = [\<lparr>cat_name = ''Food Court''\<rparr>]\<rparr>"

definition new_cafe :: place_data where
  "new_cafe = \<lparr>name = ''New Cafe'', categories = [\<lparr>cat_name = ''Cafe''\<rparr>]\<rparr>"

definition new_mall :: place_data where
  "new_mall = \<lparr>name = ''New Mall'', categories = []\<rparr>"

definition sample_business_env :: business_env where
  "sample_business_env =
     \<lparr>popularity_draw = 0.5, sentiment_draw = 0.5, business_hour = 8,
      business_start = 0, business_end = 0.002\<rparr>"

definition sample_context_env :: context_env where
  "sample_context_env =
     \<lparr>context_hour = 10, crowd_draw = 0, weather_draw = 1, confidence_draw = 0,
      utcnow_isoformat = ''2024-05-01T10:00:00'', context_start = 0.002, context_end = 0.003\<rparr>"

definition sample_access_env :: access_env where
  "sample_access_env =
     \<lparr>accessibility_draw = 0.48,
      feature_env =
        \<lparr>ramp_draw = 0, elevator_draw = 1, restrooms_draw = 0, entrances_draw = 1,
         parking_draw = 0\<rparr>,
      access_start = 0.003, access_end = 0.004\<rparr>"

text \<open>A float with one decimal as Python prints it, for the non-negative scores.\<close>

fun show_nat :: "nat \<Rightarrow> string" where
  "show_nat n =
     (if n < 10 then [''0123456789'' ! n] else show_nat (n div 10) @ [''0123456789'' ! (n mod 10)])"

declare show_nat.simps [simp del]

definition show_one_decimal :: "real \<Rightarrow> string" where
  "show_one_decimal x = show_nat (nat \<lfloor>x\<rfloor>) @ ''.'' @ show_nat (nat \<lfloor>x * 10\<rfloor> mod 10)"

definition sample_unified_env :: unified_env where
  "sample_unified_env =
     \<lparr>float_str = show_one_decimal, unified_start = 0.004, unified_end = 0.005\<rparr>"

definition sample_env :: request_env where
  "sample_env =
     \<lparr>business_part = sample_business_env, context_part = sample_context_env,
      access_part = sample_access_env, unified_part = sample_unified_env,
      request_start = 0, request_end = 0.005\<rparr>"

text \<open>
  Request bodies: the specification's example and a body the handler refuses; and the
  exception that \<^verbatim>\<open>get_json()\<close> of Flask 3 raises for a request without a JSON body.
\<close>

definition starbucks_request :: json where
  "starbucks_request =
     JObj [(''place'',
            JObj [(''name'', JStr ''Starbucks Downtown''),
                  (''categories'', JArr [JObj [(''name'', JStr ''Coffee Shop'')]])])]"

definition zero_place_request :: json where
  "zero_place_request = JObj [(''place'', JInt 0)]"

definition no_json_body :: py_exception where
  "no_json_body =
     HTTPException
       (''415 Unsupported Media Type: Did not attempt to load JSON data because the '' @
        ''request Content-Type was not '' @ [CHR 0x27] @ ''application/json'' @ [CHR 0x27] @ ''.'')"

definition gym_place :: place_data where
  "gym_place = \<lparr>name = ''Iron Works'', categories = [\<lparr>cat_name = ''Gym''\<rparr>]\<rparr>"

definition later_env :: request_env where
  "later_env = sample_env\<lparr>request_start := 60, request_end := 60.005\<rparr>"

section \<open>Properties\<close>

subsection \<open>Rounding and clamping\<close>

lemma round_half_even_bounds:
  "\<lfloor>x\<rfloor> \<le> round_half_even x \<and> round_half_even x \<le> \<lceil>x\<rceil>"
  unfolding round_half_even_def Let_def by (auto simp: ceiling_def) (linarith+)

text \<open>Rounding to \<open>n\<close> decimals does not cross a bound that has at most \<open>n\<close> decimals.\<close>

lemma py_round_ge:
  assumes "a * 10 ^ n = of_int k" and "a \<le> x"
  shows "a \<le> py_round x n"
proof -
  have "of_int k \<le> x * 10 ^ n"
    using assms by (metis mult_right_mono zero_le_numeral zero_le_power)
  then have "k \<le> \<lfloor>x * 10 ^ n\<rfloor>"
    by (simp add: le_floor_iff)
  then have "k \<le> round_half_even (x * 10 ^ n)"
    using round_half_even_bounds [of "x * 10 ^ n"] by linarith
  then have "(of_int k :: real) \<le> of_int (round_half_even (x * 10 ^ n))"
    by simp
  then have "of_int k / 10 ^ n \<le> py_round x n"
    unfolding py_round_def by (simp add: divide_right_mono)
  moreover have "a = of_int k / 10 ^ n"
    using assms(1) by (simp add: field_simps)
  ultimately show ?thesis by simp
qed

lemma py_round_le:
  assumes "b * 10 ^ n = of_int k" and "x \<le> b"
  shows "py_round x n \<le> b"
proof -
  have "x * 10 ^ n \<le> of_int k"
    using assms by (metis mult_right_mono zero_le_numeral zero_le_power)
  then have "\<lceil>x * 10 ^ n\<rceil> \<le> k"
    by (simp add: ceiling_le_iff)
  then have "round_half_even (x * 10 ^ n) \<le> k"
    using round_half_even_bounds [of "x * 10 ^ n"] by linarith
  then have "(of_int (round_half_even (x * 10 ^ n)) :: real) \<le> of_int k"
    by simp
  then have "py_round x n \<le> of_int k / 10 ^ n"
    unfolding py_round_def by (simp add: divide_right_mono)
  moreover have "b = of_int k / 10 ^ n"
    using assms(1) by (simp add: field_simps)
  ultimately show ?thesis by simp
qed

lemma clamp_range:
  "a = lo \<Longrightarrow> b = hi \<Longrightarrow> lo \<le> hi \<Longrightarrow>
     lo \<le> max a (min b (x::real)) \<and> max a (min b x) \<le> hi"
  by simp

lemma calculate_popularity_score_range:
  "1 \<le> calculate_popularity_score nm cats u \<and> calculate_popularity_score nm cats u \<le> 10"
  unfolding calculate_popularity_score_def Let_def
  by (rule clamp_range) simp_all

lemma analyze_sentiment_range:
  "1 \<le> analyze_sentiment nm cat u \<and> analyze_sentiment nm cat u \<le> 5"
  unfolding analyze_sentiment_def Let_def
  by (rule clamp_range) simp_all

lemma calculate_trending_score_range:
  "0 \<le> calculate_trending_score cat hour \<and> calculate_trending_score cat hour \<le> 10"
  unfolding calculate_trending_score_def Let_def
  by (rule clamp_range) simp_all

lemma calculate_accessibility_score_range:
  "0 \<le> calculate_accessibility_score cats nm u \<and> calculate_accessibility_score cats nm u \<le> 10"
proof (cases cats)
  case Nil
  then show ?thesis by (simp add: calculate_accessibility_score_def)
next
  case (Cons c rest)
  show ?thesis
    unfolding calculate_accessibility_score_def Let_def Cons list.case
    by (rule clamp_range) simp_all
qed

lemma uniform_range:
  assumes "a \<le> b" and "unit_draw u"
  shows "a \<le> uniform a b u \<and> uniform a b u \<le> b"
proof -
  have u: "0 \<le> u" "u \<le> 1"
    using assms(2) by (simp_all add: unit_draw_def)
  have "0 \<le> (b - a) * u"
    using assms(1) u(1) by simp
  moreover have "(b - a) * u \<le> (b - a) * 1"
    using assms(1) u(2) by (intro mult_left_mono) simp_all
  ultimately show ?thesis by (simp add: uniform_def)
qed

subsection \<open>The scores of the analyzer results\<close>

lemma analyze_place_scores:
  "popularity_score (analyze_place p e) =
     py_round (calculate_popularity_score (name p) (categories p) (popularity_draw e)) 1"
  "sentiment_score (analyze_place p e) =
     py_round (analyze_sentiment (name p) (get_primary_category (categories p)) (sentiment_draw e)) 1"
  "trending_score (analyze_place p e) =
     py_round (calculate_trending_score (get_primary_category (categories p)) (business_hour e)) 1"
  by (simp_all add: analyze_place_def Let_def)

lemma analyze_accessibility_scores:
  "accessibility_score (analyze_accessibility p e) =
     py_round (calculate_accessibility_score (categories p) (name p) (accessibility_draw e)) 1"
  "wheelchair_accessible (analyze_accessibility p e) =
     (7 \<le> calculate_accessibility_score (categories p) (name p) (accessibility_draw e))"
  by (simp_all add: analyze_accessibility_def Let_def)

lemma analyze_context_confidence:
  "context_confidence_score (analyze_context p e) =
     py_round (uniform 0.7 0.95 (confidence_draw e)) 2"
  by (simp add: analyze_context_def Let_def)

lemma popularity_score_range:
  "1 \<le> popularity_score (analyze_place p e) \<and> popularity_score (analyze_place p e) \<le> 10"
  unfolding analyze_place_scores
  using calculate_popularity_score_range [of "name p" "categories p" "popularity_draw e"]
  by (intro conjI py_round_ge [where k = 10] py_round_le [where k = 100]) simp_all

lemma sentiment_score_range:
  "1 \<le> sentiment_score (analyze_place p e) \<and> sentiment_score (analyze_place p e) \<le> 5"
  unfolding analyze_place_scores
  using analyze_sentiment_range
    [of "name p" "get_primary_category (categories p)" "sentiment_draw e"]
  by (intro conjI py_round_ge [where k = 10] py_round_le [where k = 50]) simp_all

lemma trending_score_range:
  "0 \<le> trending_score (analyze_place p e) \<and> trending_score (analyze_place p e) \<le> 10"
  unfolding analyze_place_scores
  using calculate_trending_score_range [of "get_primary_category (categories p)" "business_hour e"]
  by (intro conjI py_round_ge [where k = 0] py_round_le [where k = 100]) simp_all

lemma accessibility_score_range:
  "0 \<le> accessibility_score (analyze_accessibility p e) \<and>
   accessibility_score (analyze_accessibility p e) \<le> 10"
  unfolding analyze_accessibility_scores
  using calculate_accessibility_score_range [of "categories p" "name p" "accessibility_draw e"]
  by (intro conjI py_round_ge [where k = 0] py_round_le [where k = 100]) simp_all

lemma context_confidence_score_range:
  assumes "unit_draw (confidence_draw e)"
  shows "0.7 \<le> context_confidence_score (analyze_context p e) \<and>
         context_confidence_score (analyze_context p e) \<le> 0.95"
  unfolding analyze_context_confidence
  using uniform_range [of "0.7" "0.95", OF _ assms]
  by (intro conjI py_round_ge [where k = 70] py_round_le [where k = 95]) simp_all

text \<open>
  Claim C1. For every place, every hour and every outcome of the draws, the scores of the
  analyzer results lie in their documented ranges: \<open>popularity_score\<close> in \<open>[1, 10]\<close>,
  \<open>sentiment_score\<close> in \<open>[1, 5]\<close>, \<open>trending_score\<close> in \<open>[0, 10]\<close>, \<open>accessibility_score\<close>
  in \<open>[0, 10]\<close> and the confidence of the context in \<open>[0.7, 0.95]\<close>. The first four are
  clamped, so they hold whatever the draw is; the confidence is a \<^verbatim>\<open>random.uniform\<close>
  value, whose draw lies in \<open>[0, 1)\<close>.
\<close>

theorem scores_within_documented_ranges:
  assumes "unit_draw (confidence_draw ce)"
  shows "popularity_score (analyze_place p be) \<in> {1 .. 10} \<and>
         sentiment_score (analyze_place p be) \<in> {1 .. 5} \<and>
         trending_score (analyze_place p be) \<in> {0 .. 10} \<and>
         accessibility_score (analyze_accessibility p ae) \<in> {0 .. 10} \<and>
         context_confidence_score (analyze_context p ce) \<in> {0.7 .. 0.95}"
  using popularity_score_range [of p be] sentiment_score_range [of p be]
    trending_score_range [of p be] accessibility_score_range [of p ae]
    context_confidence_score_range [OF assms, of p]
  by simp

theorem scores_within_documented_ranges_witness:
  "unit_draw (confidence_draw sample_context_env) \<and>
   popularity_score (analyze_place starbucks sample_business_env) \<in> {1 .. 10} \<and>
   sentiment_score (analyze_place starbucks sample_business_env) \<in> {1 .. 5} \<and>
   trending_score (analyze_place starbucks sample_business_env) \<in> {0 .. 10} \<and>
   accessibility_score (analyze_accessibility starbucks sample_access_env) \<in> {0 .. 10} \<and>
   context_confidence_score (analyze_context starbucks sample_context_env) \<in> {0.7 .. 0.95}"
proof -
  have draw: "unit_draw (confidence_draw sample_context_env)"
    by (simp add: sample_context_env_def unit_draw_def)
  show ?thesis
    using draw
      scores_within_documented_ranges
        [OF draw, of starbucks sample_business_env sample_access_env]
    by simp
qed

subsection \<open>The wheelchair flag\<close>

lemma py_round_gt:
  assumes "a * 10 ^ n = of_int k" and "a < py_round x n"
  shows "a < x"
proof (rule ccontr)
  assume "\<not> a < x"
  then have "x \<le> a" by simp
  then have "py_round x n \<le> a"
    using assms(1) by (rule py_round_le [rotated])
  with assms(2) show False by simp
qed

text \<open>
  Claim C2, as amended. \<open>wheelchair_accessible\<close> is the comparison \<open>s \<ge> 7.0\<close> for the score
  \<open>s\<close> that \<^verbatim>\<open>_calculate_accessibility_score\<close> returns, before rounding; the result's
  \<open>accessibility_score\<close> is \<open>s\<close> rounded to one decimal. So the flag implies that the
  returned score is at least 7.0, and a returned score above 7.0 implies the flag; a
  returned score of exactly 7.0 goes with either value of the flag: with the flag set for
  the place \<open>gym_place\<close> and the draw 0.75 (unrounded score 7.0), with the flag not set for
  the place \<open>new_cafe\<close> and the draw 0.48 (unrounded score 6.96).
\<close>

theorem wheelchair_flag_from_unrounded_score:
  "wheelchair_accessible (analyze_accessibility p e) =
     (7.0 \<le> calculate_accessibility_score (categories p) (name p) (accessibility_draw e)) \<and>
   accessibility_score (analyze_accessibility p e) =
     py_round (calculate_accessibility_score (categories p) (name p) (accessibility_draw e)) 1 \<and>
   (wheelchair_accessible (analyze_accessibility p e) \<longrightarrow>
      7.0 \<le> accessibility_score (analyze_accessibility p e)) \<and>
   (7.0 < accessibility_score (analyze_accessibility p e) \<longrightarrow>
      wheelchair_accessible (analyze_accessibility p e)) \<and>
   wheelchair_accessible
     (analyze_accessibility gym_place (sample_access_env\<lparr>accessibility_draw := 0.75\<rparr>)) \<and>
   accessibility_score
     (analyze_accessibility gym_place (sample_access_env\<lparr>accessibility_draw := 0.75\<rparr>)) = 7.0 \<and>
   \<not> wheelchair_accessible
     (analyze_accessibility new_cafe (sample_access_env\<lparr>accessibility_draw := 0.48\<rparr>)) \<and>
   accessibility_score
     (analyze_accessibility new_cafe (sample_access_env\<lparr>accessibility_draw := 0.48\<rparr>)) = 7.0"
proof -
  let ?s = "calculate_accessibility_score (categories p) (name p) (accessibility_draw e)"
  have lo: "7 \<le> ?s \<Longrightarrow> 7 \<le> py_round ?s 1"
    by (rule py_round_ge [where k = 70]) simp_all
  have hi: "7 < py_round ?s 1 \<Longrightarrow> 7 < ?s"
    by (rule py_round_gt [where k = 70 and n = 1]) simp_all
  have general:
    "wheelchair_accessible (analyze_accessibility p e) = (7.0 \<le> ?s) \<and>
     accessibility_score (analyze_accessibility p e) = py_round ?s 1 \<and>
     (wheelchair_accessible (analyze_accessibility p e) \<longrightarrow>
        7.0 \<le> accessibility_score (analyze_accessibility p e)) \<and>
     (7.0 < accessibility_score (analyze_accessibility p e) \<longrightarrow>
        wheelchair_accessible (analyze_accessibility p e))"
    unfolding analyze_accessibility_scores
    using lo hi by auto
  have set_at_seven:
    "wheelchair_accessible
       (analyze_accessibility gym_place (sample_access_env\<lparr>accessibility_draw := 0.75\<rparr>)) \<and>
     accessibility_score
       (analyze_accessibility gym_place (sample_access_env\<lparr>accessibility_draw := 0.75\<rparr>)) = 7.0"
    by code_simp
  have unset_at_seven:
    "\<not> wheelchair_accessible
       (analyze_accessibility new_cafe (sample_access_env\<lparr>accessibility_draw := 0.48\<rparr>)) \<and>
     accessibility_score
       (analyze_accessibility new_cafe (sample_access_env\<lparr>accessibility_draw := 0.48\<rparr>)) = 7.0"
    by code_simp
  show ?thesis
    using general set_at_seven unset_at_seven by blast
qed

theorem wheelchair_flag_from_unrounded_score_witness:
  "wheelchair_accessible (analyze_accessibility city_library sample_access_env) \<and>
   7.0 < accessibility_score (analyze_accessibility city_library sample_access_env)"
proof -
  have flag: "wheelchair_accessible (analyze_accessibility city_library sample_access_env)"
    by code_simp
  have score: "7.0 < accessibility_score (analyze_accessibility city_library sample_access_env)"
    by code_simp
  show ?thesis
    using flag score wheelchair_flag_from_unrounded_score [of city_library sample_access_env]
    by simp
qed

text \<open>
  The claim as stated fails: for the place \<open>new_cafe\<close> and the draw 0.48 the unrounded
  score is 6.96, the flag is false, and the returned score is 7.0.
\<close>

theorem wheelchair_flag_counterexample:
  "calculate_accessibility_score (categories new_cafe) (name new_cafe)
     (accessibility_draw sample_access_env) = 6.96 \<and>
   wheelchair_accessible (analyze_accessibility new_cafe sample_access_env) = False \<and>
   accessibility_score (analyze_accessibility new_cafe sample_access_env) = 7.0 \<and>
   wheelchair_accessible (analyze_accessibility new_cafe sample_access_env) \<noteq>
     (7.0 \<le> accessibility_score (analyze_accessibility new_cafe sample_access_env))"
  by code_simp

text \<open>
  Claim C9. A place without categories gets the accessibility score 5.0 whatever its name
  and whatever the draw: \<^verbatim>\<open>_calculate_accessibility_score\<close> returns its base score before
  it looks at the name or draws. So \<open>wheelchair_accessible\<close> is false for such a place.
\<close>

theorem no_categories_accessibility_score:
  assumes "categories p = []"
  shows "calculate_accessibility_score (categories p) (name p) (accessibility_draw e) = 5.0 \<and>
         accessibility_score (analyze_accessibility p e) = 5.0 \<and>
         \<not> wheelchair_accessible (analyze_accessibility p e)"
proof -
  have raw: "calculate_accessibility_score (categories p) (name p) (accessibility_draw e) = 5"
    using assms by (simp add: calculate_accessibility_score_def)
  have "py_round 5 1 = 5"
    by (simp add: py_round_def round_half_even_def)
  then show ?thesis
    unfolding analyze_accessibility_scores raw by simp
qed

theorem no_categories_accessibility_score_witness:
  "categories new_mall = [] \<and>
   accessibility_score (analyze_accessibility new_mall sample_access_env) = 5.0 \<and>
   \<not> wheelchair_accessible (analyze_accessibility new_mall sample_access_env)"
proof -
  have empty: "categories new_mall = []"
    by (simp add: new_mall_def)
  show ?thesis
    using empty no_categories_accessibility_score [OF empty, of sample_access_env] by simp
qed

subsection \<open>The category classifier of the Business Analyzer\<close>

text \<open>
  Claim C3. \<^verbatim>\<open>_get_primary_category\<close> of the Business Analyzer is the classifier of the
  specification: no category gives \<open>general\<close>; otherwise the lower-cased name of the first
  category is tested for the keyword sets in their precedence order, the first set with a
  keyword that occurs in it decides, and no match gives \<open>general\<close>. It is a function of
  the first category alone (it takes no draw and no clock), and its value is one of the
  six internal categories.
\<close>

theorem get_primary_category_is_classifier:
  "get_primary_category cats = classify cats \<and>
   get_primary_category [] = ''general'' \<and>
   get_primary_category (c # rest) = get_primary_category [c] \<and>
   get_primary_category cats \<in>
     set [''coffee'', ''restaurant'', ''gym'', ''library'', ''shopping'', ''general'']"
proof (intro conjI)
  show "get_primary_category cats = classify cats"
    by (cases cats) (simp_all add: get_primary_category_def classify_def keyword_sets_def Let_def)
  show "get_primary_category [] = ''general''"
    by (simp add: get_primary_category_def)
  show "get_primary_category (c # rest) = get_primary_category [c]"
    by (simp add: get_primary_category_def)
  show "get_primary_category cats \<in>
     set [''coffee'', ''restaurant'', ''gym'', ''library'', ''shopping'', ''general'']"
    by (cases cats) (simp_all add: get_primary_category_def Let_def)
qed

subsection \<open>The trending score\<close>

text \<open>
  Claim C5. For every category and every hour, the \<^verbatim>\<open>if\<close>/\<^verbatim>\<open>elif\<close> chain of
  \<^verbatim>\<open>_calculate_trending_score\<close> computes what the three time bonuses give when each is
  evaluated on its own and added: the three guards exclude each other pairwise.
\<close>

theorem trending_chain_equals_independent_bonuses:
  "calculate_trending_score cat hour = trending_independent cat hour \<and>
   \<not> ((7 \<le> hour \<and> hour \<le> 9 \<and> cat = ''coffee'') \<and> (12 \<le> hour \<and> hour \<le> 14 \<and> cat = ''restaurant'')) \<and>
   \<not> ((7 \<le> hour \<and> hour \<le> 9 \<and> cat = ''coffee'') \<and> (18 \<le> hour \<and> hour \<le> 20 \<and> cat = ''restaurant'')) \<and>
   \<not> ((12 \<le> hour \<and> hour \<le> 14 \<and> cat = ''restaurant'') \<and> (18 \<le> hour \<and> hour \<le> 20 \<and> cat = ''restaurant''))"
proof (intro conjI)
  show "calculate_trending_score cat hour = trending_independent cat hour"
    by (simp add: calculate_trending_score_def trending_independent_def Let_def)
qed auto

subsection \<open>Two ways of reading the category\<close>

text \<open>
  Claim C6. The Business Analyzer and the Context Analyzer do not treat a place under the
  same category: for the label \<^verbatim>\<open>Food Court\<close> the former answers \<open>restaurant\<close>, while the
  raw label of the latter does not contain \<^verbatim>\<open>restaurant\<close>, so at 22 hours its status check
  takes the default branch (closed) where the restaurant branch says open, and its best
  visit times are the default ones.
\<close>

theorem business_and_context_branches_differ:
  "get_primary_category (categories food_court) = ''restaurant'' \<and>
   atmosphere (analyze_place food_court sample_business_env) = ''welcoming'' \<and>
   realtime_get_primary_category (categories food_court) = ''food court'' \<and>
   \<not> str_in ''restaurant'' (realtime_get_primary_category (categories food_court)) \<and>
   determine_status (realtime_get_primary_category (categories food_court)) 22 = ''closed'' \<and>
   determine_status ''restaurant'' 22 = ''open'' \<and>
   current_status (analyze_context food_court (sample_context_env\<lparr>context_hour := 22\<rparr>)) =
     ''closed'' \<and>
   suggest_best_times (realtime_get_primary_category (categories food_court)) =
     [''10:00-12:00'', ''14:00-16:00''] \<and>
   suggest_best_times ''restaurant'' = [''11:30-12:00'', ''14:30-17:00'', ''21:00-22:00'']"
  by code_simp

subsection \<open>The crowd level\<close>

lemma estimate_crowd_level_by_table:
  "estimate_crowd_level cat hour i =
     (case crowd_by_hour cat hour of
        Some level \<Rightarrow> level
      | None \<Rightarrow> choice [''quiet'', ''moderate'', ''busy''] i)"
  by (simp add: estimate_crowd_level_def crowd_by_hour_def crowd_hours_def)

lemma crowd_by_hour_defined:
  "(crowd_by_hour cat hour \<noteq> None) =
     (str_in ''restaurant'' cat \<or> str_in ''coffee'' cat \<or> str_in ''gym'' cat)"
  by (simp add: crowd_by_hour_def crowd_hours_def)

text \<open>
  Claim C4, as amended. \<^verbatim>\<open>_estimate_crowd_level\<close> has hour tables for three labels: a
  label that contains \<^verbatim>\<open>restaurant\<close>, \<^verbatim>\<open>coffee\<close> or \<^verbatim>\<open>gym\<close> (tested in this order) gets the
  level its table gives for the hour, \<open>quiet\<close> outside the busy and moderate hours, whatever
  the draw; every other label, \<^verbatim>\<open>library\<close> among them, gets the drawn choice among
  \<open>quiet\<close>, \<open>moderate\<close> and \<open>busy\<close>.
\<close>

theorem crowd_level_by_three_tables:
  "crowd_level (analyze_context p e) =
     (case crowd_by_hour (realtime_get_primary_category (categories p)) (context_hour e) of
        Some level \<Rightarrow> level
      | None \<Rightarrow> choice [''quiet'', ''moderate'', ''busy''] (crowd_draw e)) \<and>
   (crowd_by_hour cat hour \<noteq> None) =
     (str_in ''restaurant'' cat \<or> str_in ''coffee'' cat \<or> str_in ''gym'' cat) \<and>
   crowd_by_hour ''library'' hour = None"
proof -
  have "crowd_level (analyze_context p e) =
      estimate_crowd_level (realtime_get_primary_category (categories p)) (context_hour e) (crowd_draw e)"
    by (simp add: analyze_context_def Let_def)
  moreover have "crowd_by_hour ''library'' hour = None"
    by (simp add: crowd_by_hour_def crowd_hours_def str_in_def sublist_Cons_right)
  ultimately show ?thesis
    using estimate_crowd_level_by_table crowd_by_hour_defined by simp
qed

text \<open>
  The claim as stated fails for \<^verbatim>\<open>library\<close>, the fourth known category: at the same hour
  the crowd level of a library follows the draw.
\<close>

theorem crowd_level_library_counterexample:
  "realtime_get_primary_category (categories city_library) = ''library'' \<and>
   crowd_level (analyze_context city_library (sample_context_env\<lparr>crowd_draw := 0\<rparr>)) = ''quiet'' \<and>
   crowd_level (analyze_context city_library (sample_context_env\<lparr>crowd_draw := 2\<rparr>)) = ''busy'' \<and>
   context_hour (sample_context_env\<lparr>crowd_draw := 0\<rparr>) =
     context_hour (sample_context_env\<lparr>crowd_draw := 2\<rparr>)"
  by code_simp

subsection \<open>The lists of the Synthesis Engine\<close>

lemma insight_candidates_order:
  "insight_candidates fmt p b c a =
     (if 8 \<le> popularity_score b
        then [''Highly popular destination with '' @ fmt (popularity_score b) @ ''/10 rating'']
      else if 6 \<le> popularity_score b
        then [''Well-regarded place with '' @ fmt (popularity_score b) @ ''/10 popularity'']
      else []) @
     (if crowd_level c = ''quiet'' then [''Currently quiet - perfect for a peaceful visit'']
      else if crowd_level c = ''busy''
        then [''Currently busy - consider visiting during suggested off-peak times'']
      else []) @
     (if wheelchair_accessible a
        then [''Fully wheelchair accessible with comprehensive features''] else []) @
     (if atmosphere b \<noteq> [] \<and> ideal_for b \<noteq> []
        then [title (atmosphere b) @ '' atmosphere, ideal for '' @ join '', '' (ideal_for b)]
      else [])"
  by (simp add: insight_candidates_def Let_def)

lemma note_candidates_order:
  "note_candidates a =
     (if wheelchair_accessible a then [''Wheelchair accessible with ramp access'']
      else [''Accessibility features may be limited - recommend calling ahead'']) @
     (if accessible_restrooms (access_features a)
        then [''Accessible restroom facilities available''] else []) @
     (if hearing_loop (access_features a)
        then [''Hearing loop system available for hearing aid users''] else [])"
  by (simp add: note_candidates_def Let_def)

lemma insight_candidates_length: "length (insight_candidates fmt p b c a) \<le> 4"
  unfolding insight_candidates_order by simp

lemma alternative_candidates_length: "length (alternative_candidates p b) \<le> 3"
  by (simp add: alternative_candidates_def Let_def split: list.split)

lemma note_candidates_length: "length (note_candidates a) \<le> 3"
  unfolding note_candidates_order by simp

lemma suggest_alternatives_take: "suggest_alternatives p b = take 3 (alternative_candidates p b)"
  by (simp add: suggest_alternatives_def alternative_candidates_def split: list.split)

lemma generate_recommendations_fields:
  "confidence_score (generate_recommendations p b c a e) = py_round (calculate_confidence_score b c a) 2"
  "personalized_insights (generate_recommendations p b c a e) =
     generate_personalized_insights (float_str e) p b c a"
  "alternative_suggestions (generate_recommendations p b c a e) = suggest_alternatives p b"
  "accessibility_notes (generate_recommendations p b c a e) = create_accessibility_notes a"
  by (simp_all add: generate_recommendations_def Let_def)

text \<open>
  Claim C7. Whatever results the Synthesis Engine is given, its insights are at most 4, its
  alternatives at most 3 and its accessibility notes at most 3; each list is the initial
  segment of the sentences that the checks of its method add, in the fixed order of the
  checks: popularity, crowd level, wheelchair access, atmosphere for the insights; the
  opening sentence, restrooms, hearing loop for the notes; the three sentences of the
  category for the alternatives.
\<close>

theorem synthesis_lists_capped_in_order:
  "length (personalized_insights (generate_recommendations p b c a e)) \<le> 4 \<and>
   length (alternative_suggestions (generate_recommendations p b c a e)) \<le> 3 \<and>
   length (accessibility_notes (generate_recommendations p b c a e)) \<le> 3 \<and>
   personalized_insights (generate_recommendations p b c a e) =
     take 4
       ((if 8 \<le> popularity_score b
           then [''Highly popular destination with '' @ float_str e (popularity_score b) @
                 ''/10 rating'']
         else if 6 \<le> popularity_score b
           then [''Well-regarded place with '' @ float_str e (popularity_score b) @
                 ''/10 popularity'']
         else []) @
        (if crowd_level c = ''quiet'' then [''Currently quiet - perfect for a peaceful visit'']
         else if crowd_level c = ''busy''
           then [''Currently busy - consider visiting during suggested off-peak times'']
         else []) @
        (if wheelchair_accessible a
           then [''Fully wheelchair accessible with comprehensive features''] else []) @
        (if atmosphere b \<noteq> [] \<and> ideal_for b \<noteq> []
           then [title (atmosphere b) @ '' atmosphere, ideal for '' @ join '', '' (ideal_for b)]
         else [])) \<and>
   alternative_suggestions (generate_recommendations p b c a e) =
     take 3 (alternative_candidates p b) \<and>
   accessibility_notes (generate_recommendations p b c a e) =
     take 3
       ((if wheelchair_accessible a then [''Wheelchair accessible with ramp access'']
         else [''Accessibility features may be limited - recommend calling ahead'']) @
        (if accessible_restrooms (access_features a)
           then [''Accessible restroom facilities available''] else []) @
        (if hearing_loop (access_features a)
           then [''Hearing loop system available for hearing aid users''] else []))"
  unfolding generate_recommendations_fields suggest_alternatives_take
    generate_personalized_insights_def create_accessibility_notes_def
    insight_candidates_order note_candidates_order
  by simp

subsection \<open>The confidence of the Synthesis Engine in the pipeline\<close>

lemma run_engines_fields:
  "business_intelligence (run_engines p e) = analyze_place p (business_part e)"
  "real_time_context (run_engines p e) = analyze_context p (context_part e)"
  "accessibility_intelligence (run_engines p e) = analyze_accessibility p (access_part e)"
  "unified (run_engines p e) =
     generate_recommendations p (analyze_place p (business_part e))
       (analyze_context p (context_part e)) (analyze_accessibility p (access_part e))
       (unified_part e)"
  by (simp_all add: run_engines_def Let_def)

lemma confidence_scores_nonempty:
  assumes "0 < popularity_score b"
  shows "confidence_scores b c a \<noteq> []"
  using assms by (simp add: confidence_scores_def)

lemma calculate_confidence_score_ge:
  assumes "0 < popularity_score b" and "0.7 \<le> context_confidence_score c"
  shows "0.73 \<le> calculate_confidence_score b c a"
proof (cases "0 < accessibility_score a")
  case True
  then have "confidence_scores b c a = [0.8, context_confidence_score c, 0.7]"
    using assms by (simp add: confidence_scores_def)
  then show ?thesis
    using assms(2) by (simp add: calculate_confidence_score_def)
next
  case False
  then have "confidence_scores b c a = [0.8, context_confidence_score c]"
    using assms by (simp add: confidence_scores_def)
  then show ?thesis
    using assms(2) by (simp add: calculate_confidence_score_def)
qed

text \<open>
  Claim C10. In the pipeline the default confidence 0.5 of the Synthesis Engine is never
  taken: for every place and every draw the popularity score is at least 1.0 and the
  confidence of the context at least 0.7, so the list of collected weights is not empty, and
  the synthesized \<open>confidence_score\<close> is at least 0.73.
\<close>

theorem pipeline_confidence_never_default:
  assumes "unit_draw (confidence_draw (context_part e))"
  shows "1 \<le> popularity_score (business_intelligence (run_engines p e)) \<and>
         0.7 \<le> context_confidence_score (real_time_context (run_engines p e)) \<and>
         confidence_scores (business_intelligence (run_engines p e))
           (real_time_context (run_engines p e))
           (accessibility_intelligence (run_engines p e)) \<noteq> [] \<and>
         0.73 \<le> confidence_score (unified (run_engines p e))"
proof -
  let ?b = "analyze_place p (business_part e)"
  let ?c = "analyze_context p (context_part e)"
  let ?a = "analyze_accessibility p (access_part e)"
  have pop: "1 \<le> popularity_score ?b"
    using popularity_score_range by blast
  have conf: "0.7 \<le> context_confidence_score ?c"
    using context_confidence_score_range [OF assms] by blast
  have pos: "0 < popularity_score ?b"
    using pop by simp
  have "0.73 \<le> calculate_confidence_score ?b ?c ?a"
    using pos conf by (rule calculate_confidence_score_ge)
  then have "0.73 \<le> py_round (calculate_confidence_score ?b ?c ?a) 2"
    by (intro py_round_ge [where k = 73]) simp_all
  then have "0.73 \<le> confidence_score (unified (run_engines p e))"
    by (simp add: run_engines_fields generate_recommendations_def Let_def)
  then show ?thesis
    using pop conf confidence_scores_nonempty [OF pos]
    by (simp add: run_engines_fields)
qed

theorem pipeline_confidence_never_default_witness:
  "unit_draw (confidence_draw (context_part sample_env)) \<and>
   confidence_scores (business_intelligence (run_engines starbucks sample_env))
     (real_time_context (run_engines starbucks sample_env))
     (accessibility_intelligence (run_engines starbucks sample_env)) = [0.8, 0.7, 0.7] \<and>
   confidence_score (unified (run_engines starbucks sample_env)) = 0.73 \<and>
   0.73 \<le> confidence_score (unified (run_engines starbucks sample_env))"
proof -
  have draw: "unit_draw (confidence_draw (context_part sample_env))"
    by (simp add: sample_env_def sample_context_env_def unit_draw_def)
  have scores: "confidence_scores (business_intelligence (run_engines starbucks sample_env))
     (real_time_context (run_engines starbucks sample_env))
     (accessibility_intelligence (run_engines starbucks sample_env)) = [0.8, 0.7, 0.7]"
    by code_simp
  have least: "confidence_score (unified (run_engines starbucks sample_env)) = 0.73"
    by code_simp
  show ?thesis
    using draw scores least pipeline_confidence_never_default [OF draw, of starbucks]
    by simp
qed

subsection \<open>The status of the endpoint\<close>

lemma rejected_iff:
  "rejected data =
     (\<not> truthy data \<or> (\<exists>d. data = JObj d \<and> \<not> truthy (dict_get d ''place'' (JObj []))))"
  by (cases data) (auto simp: dict_get_def)

lemma try_enhance_falsy:
  "\<not> truthy data \<Longrightarrow>
     try_enhance (Inr data) e = Inr \<lparr>status = 400, body = JObj [(''error'', JStr ''No data provided'')]\<rparr>"
  by (simp add: try_enhance_def)

lemma try_enhance_no_place:
  "truthy (JObj d) \<Longrightarrow> \<not> truthy (dict_get d ''place'' (JObj [])) \<Longrightarrow>
     try_enhance (Inr (JObj d)) e =
       Inr \<lparr>status = 400, body = JObj [(''error'', JStr ''No place data provided'')]\<rparr>"
  by (simp add: try_enhance_def)

lemma try_enhance_place:
  "truthy (JObj d) \<Longrightarrow> dict_get d ''place'' (JObj []) = JObj p \<Longrightarrow> p \<noteq> [] \<Longrightarrow>
     try_enhance (Inr (JObj d)) e =
       (case read_place p of
          Inl ex \<Rightarrow> Inl ex
        | Inr place \<Rightarrow> Inr \<lparr>status = 200, body = response_json (run_engines place e) e\<rparr>)"
  by (simp add: try_enhance_def)

lemma try_enhance_not_dict:
  "truthy data \<Longrightarrow> (\<forall>d. data \<noteq> JObj d) \<Longrightarrow>
     try_enhance (Inr data) e = Inl (AttributeError (py_type data) ''get'')"
  by (cases data) (simp_all add: try_enhance_def)

lemma try_enhance_place_not_dict:
  "truthy (JObj d) \<Longrightarrow> truthy (dict_get d ''place'' (JObj [])) \<Longrightarrow>
   (\<forall>p. dict_get d ''place'' (JObj []) \<noteq> JObj p) \<Longrightarrow>
     try_enhance (Inr (JObj d)) e = Inl (AttributeError (py_type (dict_get d ''place'' (JObj []))) ''get'')"
  by (cases "dict_get d ''place'' (JObj [])") (simp_all add: try_enhance_def)

lemma status_of_enhance:
  "status (enhance_place_intelligence got e) =
     (case try_enhance got e of Inr r \<Rightarrow> status r | Inl ex \<Rightarrow> 500)"
  by (simp add: enhance_place_intelligence_def split: sum.split)

lemma status_400_iff:
  "(status (enhance_place_intelligence (Inr data) e) = 400) = rejected data"
proof (cases "truthy data")
  case False
  then show ?thesis
    by (simp add: status_of_enhance try_enhance_falsy rejected_iff)
next
  case True
  show ?thesis
  proof (cases "\<exists>d. data = JObj d")
    case False
    then have "\<forall>d. data \<noteq> JObj d" by simp
    then show ?thesis
      using True by (simp add: status_of_enhance try_enhance_not_dict rejected_iff)
  next
    case dict: True
    then obtain d where d: "data = JObj d" by blast
    let ?place = "dict_get d ''place'' (JObj [])"
    show ?thesis
    proof (cases "truthy ?place")
      case False
      then show ?thesis
        using True d by (simp add: status_of_enhance try_enhance_no_place rejected_iff)
    next
      case place: True
      show ?thesis
      proof (cases "\<exists>p. ?place = JObj p")
        case False
        then have "\<forall>p. ?place \<noteq> JObj p" by simp
        then show ?thesis
          using True d place
          by (simp add: status_of_enhance try_enhance_place_not_dict rejected_iff)
      next
        case True
        then obtain p where p: "?place = JObj p" by blast
        then have "p \<noteq> []" using place by auto
        then have "try_enhance (Inr (JObj d)) e =
            (case read_place p of
               Inl ex \<Rightarrow> Inl ex
             | Inr place \<Rightarrow> Inr \<lparr>status = 200, body = response_json (run_engines place e) e\<rparr>)"
          using \<open>truthy data\<close> d p by (simp add: try_enhance_place)
        then show ?thesis
          using \<open>truthy data\<close> d place
          by (simp add: status_of_enhance rejected_iff split: sum.split)
      qed
    qed
  qed
qed

lemma rejected_response:
  assumes "rejected data"
  shows "json_keys (body (enhance_place_intelligence (Inr data) e)) = [''error''] \<and>
         enhance_place_intelligence (Inr data) e = enhance_place_intelligence (Inr data) e'"
proof (cases "truthy data")
  case False
  then show ?thesis
    by (simp add: enhance_place_intelligence_def try_enhance_falsy)
next
  case True
  then obtain d where d: "data = JObj d" and "\<not> truthy (dict_get d ''place'' (JObj []))"
    using assms by (auto simp: rejected_iff)
  then show ?thesis
    using True by (simp add: enhance_place_intelligence_def try_enhance_no_place)
qed

lemma schema_categoryD:
  assumes "schema_category c"
  shows "\<exists>d s. c = JObj d \<and> map_of d ''name'' = Some (JStr s)"
proof (cases c)
  case (JObj d)
  show ?thesis
  proof (cases "map_of d ''name''")
    case None
    then show ?thesis using assms JObj by (simp add: schema_category_def)
  next
    case (Some v)
    then show ?thesis using assms JObj by (cases v) (simp_all add: schema_category_def)
  qed
qed (use assms in \<open>simp_all add: schema_category_def\<close>)

lemma schema_read_categories:
  assumes "case map_of p ''categories'' of None \<Rightarrow> True
           | Some (JArr cs) \<Rightarrow> list_all schema_category cs | _ \<Rightarrow> False"
  shows "\<exists>cats. read_categories (dict_get p ''categories'' (JArr [])) = Inr cats"
proof (cases "map_of p ''categories''")
  case None
  then show ?thesis by (simp add: dict_get_def)
next
  case (Some v)
  then obtain cs where cs: "v = JArr cs" and all: "list_all schema_category cs"
    using assms by (auto split: json.splits)
  show ?thesis
  proof (cases cs)
    case Nil
    then show ?thesis using Some cs by (simp add: dict_get_def)
  next
    case (Cons c rest)
    then have "schema_category c" using all by simp
    then obtain d s where "c = JObj d" and "map_of d ''name'' = Some (JStr s)"
      using schema_categoryD by blast
    then show ?thesis
      using Some cs Cons by (simp add: dict_get_def)
  qed
qed

lemma schema_read_name:
  assumes "case map_of p ''name'' of None \<Rightarrow> True | Some (JStr s) \<Rightarrow> True | _ \<Rightarrow> False"
  shows "\<exists>nm. read_name (dict_get p ''name'' (JStr [])) = Inr nm"
  using assms by (auto simp: dict_get_def read_name_def split: option.splits json.splits)

lemma schema_read_place:
  assumes "schema_place p"
  shows "\<exists>place. read_place p = Inr place"
proof -
  obtain cats where "read_categories (dict_get p ''categories'' (JArr [])) = Inr cats"
    using assms schema_read_categories by (auto simp: schema_place_def)
  moreover obtain nm where "read_name (dict_get p ''name'' (JStr [])) = Inr nm"
    using assms schema_read_name by (auto simp: schema_place_def)
  ultimately show ?thesis by (simp add: read_place_def)
qed

lemma response_json_keys:
  "json_keys (response_json r e) =
     [''business_intelligence'', ''real_time_context'', ''accessibility_intelligence'',
      ''unified_recommendations'', ''processing_time_ms'', ''data_sources'']"
  by (simp add: response_json_def Let_def)

lemma schema_place_ok:
  assumes "schema_body (JObj d)" and "map_of d ''place'' = Some (JObj p)" and "p \<noteq> []"
  shows "\<exists>place. read_place p = Inr place \<and>
           enhance_place_intelligence (Inr (JObj d)) e =
             \<lparr>status = 200, body = response_json (run_engines place e) e\<rparr>"
proof -
  have "schema_place p"
    using assms(1,2) by (simp add: schema_body_def)
  then obtain place where place: "read_place p = Inr place"
    using schema_read_place by blast
  have "d \<noteq> []" using assms(2) by auto
  then have "truthy (JObj d)" by simp
  moreover have "dict_get d ''place'' (JObj []) = JObj p"
    using assms(2) by (simp add: dict_get_def)
  ultimately have "try_enhance (Inr (JObj d)) e =
      Inr \<lparr>status = 200, body = response_json (run_engines place e) e\<rparr>"
    using assms(3) place by (simp add: try_enhance_place)
  then show ?thesis
    using place by (simp add: enhance_place_intelligence_def)
qed

lemma schema_rejected:
  assumes "schema_body (JObj d)"
  shows "rejected (JObj d) =
           (map_of d ''place'' = None \<or> map_of d ''place'' = Some (JObj []))"
proof (cases "map_of d ''place''")
  case None
  then show ?thesis by (simp add: rejected_iff dict_get_def)
next
  case (Some v)
  then obtain p where "v = JObj p"
    using assms by (auto simp: schema_body_def split: json.splits)
  then show ?thesis
    using Some by (auto simp: rejected_iff dict_get_def)
qed

lemma get_json_raises:
  "enhance_place_intelligence (Inl ex) e =
     \<lparr>status = 500,
      body = JObj [(''error'', JStr ''Internal server error''),
                   (''message'', JStr (str_exception ex))]\<rparr>"
  by (simp add: enhance_place_intelligence_def try_enhance_def)

text \<open>
  Claim C8, as amended. The endpoint answers 400 with the single key \<^verbatim>\<open>error\<close>, and runs no
  engine (its answer does not depend on draws or clock), exactly when \<^verbatim>\<open>request.get_json()\<close>
  returns a value on which one of the two guards fires: the value is falsy in Python's sense
  (\<^verbatim>\<open>null\<close>, \<^verbatim>\<open>false\<close>, \<^verbatim>\<open>0\<close>, an empty string, array or object), or it is an object whose
  value at \<^verbatim>\<open>place\<close>, an empty object when the key is missing, is falsy. When
  \<^verbatim>\<open>get_json()\<close> raises, as Flask does for a request without a JSON body, the answer is not
  400 but 500, with the keys \<^verbatim>\<open>error\<close> and \<^verbatim>\<open>message\<close>. On a body that follows the schema of
  the request the answer is 400 exactly when \<^verbatim>\<open>place\<close> is missing (the empty object as body
  included) or is the empty object; and every such body with a non-empty \<^verbatim>\<open>place\<close> object
  is answered 200 with the six documented keys.
\<close>

theorem enhance_status_by_guards:
  "(status (enhance_place_intelligence (Inr data) e) = 400) = rejected data \<and>
   (rejected data \<longrightarrow>
      json_keys (body (enhance_place_intelligence (Inr data) e)) = [''error''] \<and>
      enhance_place_intelligence (Inr data) e = enhance_place_intelligence (Inr data) e') \<and>
   status (enhance_place_intelligence (Inl ex) e) = 500 \<and>
   json_keys (body (enhance_place_intelligence (Inl ex) e)) = [''error'', ''message''] \<and>
   enhance_place_intelligence (Inl ex) e = enhance_place_intelligence (Inl ex) e' \<and>
   (schema_body (JObj d) \<longrightarrow>
      (status (enhance_place_intelligence (Inr (JObj d)) e) = 400) =
        (map_of d ''place'' = None \<or> map_of d ''place'' = Some (JObj []))) \<and>
   (schema_body (JObj d) \<and> map_of d ''place'' = Some (JObj p) \<and> p \<noteq> [] \<longrightarrow>
      status (enhance_place_intelligence (Inr (JObj d)) e) = 200 \<and>
      json_keys (body (enhance_place_intelligence (Inr (JObj d)) e)) =
        [''business_intelligence'', ''real_time_context'', ''accessibility_intelligence'',
         ''unified_recommendations'', ''processing_time_ms'', ''data_sources''])"
proof (intro conjI impI)
  show "(status (enhance_place_intelligence (Inr data) e) = 400) = rejected data"
    by (rule status_400_iff)
  show "status (enhance_place_intelligence (Inl ex) e) = 500"
    and "json_keys (body (enhance_place_intelligence (Inl ex) e)) = [''error'', ''message'']"
    and "enhance_place_intelligence (Inl ex) e = enhance_place_intelligence (Inl ex) e'"
    by (simp_all add: get_json_raises)
next
  assume "rejected data"
  then show "json_keys (body (enhance_place_intelligence (Inr data) e)) = [''error'']"
    and "enhance_place_intelligence (Inr data) e = enhance_place_intelligence (Inr data) e'"
    using rejected_response by blast+
next
  assume "schema_body (JObj d)"
  then show "(status (enhance_place_intelligence (Inr (JObj d)) e) = 400) =
      (map_of d ''place'' = None \<or> map_of d ''place'' = Some (JObj []))"
    using schema_rejected [of d] status_400_iff [of "JObj d" e] by simp
next
  assume "schema_body (JObj d) \<and> map_of d ''place'' = Some (JObj p) \<and> p \<noteq> []"
  then obtain place where
    "enhance_place_intelligence (Inr (JObj d)) e =
       \<lparr>status = 200, body = response_json (run_engines place e) e\<rparr>"
    using schema_place_ok [of d p e] by blast
  then show "status (enhance_place_intelligence (Inr (JObj d)) e) = 200"
    and "json_keys (body (enhance_place_intelligence (Inr (JObj d)) e)) =
        [''business_intelligence'', ''real_time_context'', ''accessibility_intelligence'',
         ''unified_recommendations'', ''processing_time_ms'', ''data_sources'']"
    by (simp_all add: response_json_keys)
qed

theorem enhance_status_by_guards_witness:
  "schema_body starbucks_request \<and>
   status (enhance_place_intelligence (Inr starbucks_request) sample_env) = 200 \<and>
   json_keys (body (enhance_place_intelligence (Inr starbucks_request) sample_env)) =
     [''business_intelligence'', ''real_time_context'', ''accessibility_intelligence'',
      ''unified_recommendations'', ''processing_time_ms'', ''data_sources''] \<and>
   rejected (JObj []) \<and>
   status (enhance_place_intelligence (Inr (JObj [])) sample_env) = 400 \<and>
   json_keys (body (enhance_place_intelligence (Inr (JObj [])) sample_env)) = [''error''] \<and>
   enhance_place_intelligence (Inr (JObj [])) sample_env =
     enhance_place_intelligence (Inr (JObj [])) later_env \<and>
   status (enhance_place_intelligence (Inl no_json_body) sample_env) = 500 \<and>
   json_keys (body (enhance_place_intelligence (Inl no_json_body) sample_env)) =
     [''error'', ''message'']"
proof -
  let ?place = "[(''name'', JStr ''Starbucks Downtown''),
                 (''categories'', JArr [JObj [(''name'', JStr ''Coffee Shop'')]])]"
  have body: "starbucks_request = JObj [(''place'', JObj ?place)]"
    by (simp add: starbucks_request_def)
  have schema: "schema_body (JObj [(''place'', JObj ?place)])"
    by (simp add: schema_body_def schema_place_def schema_category_def)
  have empty: "rejected (JObj [])"
    by (simp add: dict_get_def)
  have place: "map_of [(''place'', JObj ?place)] ''place'' = Some (JObj ?place)" and "?place \<noteq> []"
    by simp_all
  then show ?thesis
    unfolding body
    using schema empty
      enhance_status_by_guards
        [of "JObj []" sample_env later_env no_json_body "[(''place'', JObj ?place)]" ?place]
    by blast
qed

text \<open>
  The claim as stated fails: the body \<^verbatim>\<open>{"place": 0}\<close> is present and not empty, its key
  \<^verbatim>\<open>place\<close> is present and is not an empty object, and the answer is 400.
\<close>

theorem enhance_400_counterexample:
  "status (enhance_place_intelligence (Inr zero_place_request) sample_env) = 400 \<and>
   zero_place_request = JObj [(''place'', JInt 0)] \<and>
   zero_place_request \<noteq> JNull \<and> zero_place_request \<noteq> JObj [] \<and>
   map_of [(''place'', JInt 0)] ''place'' = Some (JInt 0) \<and>
   JInt 0 \<noteq> JObj []"
  by (simp add: zero_place_request_def enhance_place_intelligence_def try_enhance_def dict_get_def)

end
